theory Spec2Isabelle
  imports Complex_Main
begin

section \<open>JavaScript numbers\<close>

text \<open>
  The evaluators of the Marketing Budget Trainer compute on JavaScript numbers. A
  number is modelled as an exact rational, one of the two infinities, or NaN: the
  special values are kept because the source divides by a key count that can be
  zero, while the rounding error of binary floating point and the sign of zero are
  left out. Every arithmetic operation below follows the ECMAScript rule for the
  special values and is exact on finite operands.
\<close>

datatype number = Fin rat | PInf | NInf | NaN

fun js_neg :: "number \<Rightarrow> number" where
  "js_neg (Fin x) = Fin (- x)"
| "js_neg PInf = NInf"
| "js_neg NInf = PInf"
| "js_neg NaN = NaN"

fun js_add :: "number \<Rightarrow> number \<Rightarrow> number" where
  "js_add (Fin x) (Fin y) = Fin (x + y)"
| "js_add NaN _ = NaN"
| "js_add _ NaN = NaN"
| "js_add PInf NInf = NaN"
| "js_add NInf PInf = NaN"
| "js_add PInf _ = PInf"
| "js_add _ PInf = PInf"
| "js_add NInf _ = NInf"
| "js_add _ NInf = NInf"

definition js_sub :: "number \<Rightarrow> number \<Rightarrow> number" where
  "js_sub a b = js_add a (js_neg b)"

text \<open>The sign of a number that is not NaN: \<open>-1\<close>, \<open>0\<close> or \<open>1\<close>.\<close>

fun js_sign :: "number \<Rightarrow> rat" where
  "js_sign (Fin x) = sgn x"
| "js_sign PInf = 1"
| "js_sign NInf = - 1"
| "js_sign NaN = 0"

definition signed_inf :: "rat \<Rightarrow> number" where
  "signed_inf s = (if s = 0 then NaN else if 0 < s then PInf else NInf)"

fun js_mul :: "number \<Rightarrow> number \<Rightarrow> number" where
  "js_mul (Fin x) (Fin y) = Fin (x * y)"
| "js_mul NaN _ = NaN"
| "js_mul _ NaN = NaN"
| "js_mul a b = signed_inf (js_sign a * js_sign b)"

text \<open>
  Division: a finite nonzero number over zero is an infinity, zero over zero is NaN,
  a finite number over an infinity is zero, an infinity over an infinity is NaN.
\<close>

fun js_div :: "number \<Rightarrow> number \<Rightarrow> number" where
  "js_div (Fin x) (Fin y) = (if y = 0 then signed_inf x else Fin (x / y))"
| "js_div NaN _ = NaN"
| "js_div _ NaN = NaN"
| "js_div (Fin x) _ = Fin 0"
| "js_div a (Fin y) = (if 0 \<le> y then a else js_neg a)"
| "js_div _ _ = NaN"

fun Math_abs :: "number \<Rightarrow> number" where
  "Math_abs (Fin x) = Fin \<bar>x\<bar>"
| "Math_abs NaN = NaN"
| "Math_abs _ = PInf"

text \<open>Comparisons: every comparison with NaN is false.\<close>

fun js_le :: "number \<Rightarrow> number \<Rightarrow> bool" where
  "js_le (Fin x) (Fin y) = (x \<le> y)"
| "js_le NaN _ = False"
| "js_le _ NaN = False"
| "js_le NInf _ = True"
| "js_le _ PInf = True"
| "js_le _ _ = False"

fun js_seq :: "number \<Rightarrow> number \<Rightarrow> bool" where
  "js_seq NaN _ = False"
| "js_seq _ NaN = False"
| "js_seq a b = (a = b)"

definition js_ge :: "number \<Rightarrow> number \<Rightarrow> bool" where
  "js_ge a b = js_le b a"

definition js_gt :: "number \<Rightarrow> number \<Rightarrow> bool" where
  "js_gt a b = (js_le b a \<and> \<not> js_seq a b)"

definition js_lt :: "number \<Rightarrow> number \<Rightarrow> bool" where
  "js_lt a b = js_gt b a"

text \<open>\<open>Math.max\<close> of two arguments is NaN as soon as one argument is.\<close>

fun Math_max :: "number \<Rightarrow> number \<Rightarrow> number" where
  "Math_max NaN _ = NaN"
| "Math_max _ NaN = NaN"
| "Math_max a b = (if js_le a b then b else a)"

text \<open>\<open>Math.round\<close> rounds to the nearest integer, a tie going up.\<close>

fun Math_round :: "number \<Rightarrow> number" where
  "Math_round (Fin x) = Fin (of_int \<lfloor>x + 1 / 2\<rfloor>)"
| "Math_round a = a"

subsection \<open>Decimal rendering\<close>

fun digit_char :: "nat \<Rightarrow> char" where
  "digit_char n = char_of (48 + n)"

fun show_nat :: "nat \<Rightarrow> string" where
  "show_nat n = (if n < 10 then [digit_char n] else show_nat (n div 10) @ [digit_char (n mod 10)])"

declare show_nat.simps [simp del]

text \<open>
  \<open>x.toFixed(0)\<close>: the nearest integer in decimal digits, a tie going away from zero.
  (From \<open>10^21\<close> on JavaScript prints exponent notation instead; the channel
  percentages of this program are far below.)
\<close>

fun toFixed0 :: "number \<Rightarrow> string" where
  "toFixed0 (Fin x) =
     (if x < 0 then ''-'' @ show_nat (nat \<lfloor>- x + 1 / 2\<rfloor>) else show_nat (nat \<lfloor>x + 1 / 2\<rfloor>))"
| "toFixed0 PInf = ''Infinity''"
| "toFixed0 NInf = ''-Infinity''"
| "toFixed0 NaN = ''NaN''"

section \<open>Objects used as dictionaries\<close>

text \<open>
  A \<open>Record<string, number>\<close> is the list of its own entries in the order of
  \<open>Object.keys\<close>. Its prototype is \<open>Object.prototype\<close>, as for every object literal
  and every object parsed from JSON.
\<close>

type_synonym num_record = "(string \<times> number) list"

text \<open>
  The names \<open>Object.prototype\<close> defines. Eleven are methods; \<open>__proto__\<close> is an
  accessor whose getter yields the prototype and whose setter replaces the prototype
  when it is given an object and does nothing when it is given a string or a number.
\<close>

definition Object_prototype_names :: "string list" where
  "Object_prototype_names =
     [''constructor'', ''hasOwnProperty'', ''isPrototypeOf'', ''propertyIsEnumerable'',
      ''toLocaleString'', ''toString'', ''valueOf'', ''__proto__'', ''__defineGetter__'',
      ''__defineSetter__'', ''__lookupGetter__'', ''__lookupSetter__'']"

text \<open>
  What a property read \<open>r[k]\<close> yields: the own value when \<open>k\<close> is an own key;
  otherwise the read goes on to \<open>Object.prototype\<close> and yields one of its functions
  (the prototype object itself for \<open>__proto__\<close>), or \<open>undefined\<close> for any other name.
\<close>

datatype js_value = Undefined | Number number | Inherited

definition get_property :: "num_record \<Rightarrow> string \<Rightarrow> js_value" where
  "get_property r k =
     (case map_of r k of
        Some v \<Rightarrow> Number v
      | None \<Rightarrow> if k \<in> set Object_prototype_names then Inherited else Undefined)"

text \<open>
  \<open>v || 0\<close>: \<open>undefined\<close>, NaN and zero are falsy and give \<open>0\<close>; every other number
  and every object is kept.
\<close>

fun or_zero :: "js_value \<Rightarrow> js_value" where
  "or_zero Undefined = Number (Fin 0)"
| "or_zero (Number NaN) = Number (Fin 0)"
| "or_zero v = v"

text \<open>
  A value used in arithmetic or in a comparison with a number is converted to a
  number: \<open>undefined\<close> and the inherited functions and objects convert to NaN.
\<close>

fun to_number :: "js_value \<Rightarrow> number" where
  "to_number Undefined = NaN"
| "to_number (Number v) = v"
| "to_number Inherited = NaN"

text \<open>
  \<open>parseFloat\<close> of a property read. The text fields of the projection form are held
  as the numbers \<open>parseFloat\<close> reads from them (NaN for a text that is no number);
  \<open>undefined\<close> and the inherited functions and objects print as texts that are no
  numbers.
\<close>

fun parseFloat :: "js_value \<Rightarrow> number" where
  "parseFloat Undefined = NaN"
| "parseFloat (Number v) = v"
| "parseFloat Inherited = NaN"

text \<open>
  An assignment \<open>obj[k] = v\<close> of a string to an object that starts as \<open>{}\<close>: it
  creates or overwrites the own property \<open>k\<close>, except that for \<open>__proto__\<close> it runs
  the inherited setter, which ignores a string. The map holds the own properties.
\<close>

definition set_string_property ::
  "(string \<rightharpoonup> string) \<Rightarrow> string \<Rightarrow> string \<Rightarrow> (string \<rightharpoonup> string)" where
  "set_string_property obj k v = (if k = ''__proto__'' then obj else obj(k \<mapsto> v))"

definition Object_keys :: "num_record \<Rightarrow> string list" where
  "Object_keys r = map fst r"

definition Object_entries :: "num_record \<Rightarrow> (string \<times> number) list" where
  "Object_entries r = r"

definition all_finite :: "num_record \<Rightarrow> bool" where
  "all_finite r = list_all (\<lambda>(k, v). case v of Fin _ \<Rightarrow> True | _ \<Rightarrow> False) r"

section \<open>The allocation evaluator (BudgetPractice.tsx)\<close>

text \<open>Both evaluators hand back an object with a \<open>score\<close> property.\<close>

record scored =
  score :: number

record allocation_result = scored +
  messages :: "string list"
  channelFeedback :: "string \<rightharpoonup> string"

text \<open>The feedback string of one channel, from the two values and their deviation.\<close>

definition channel_message :: "number \<Rightarrow> number \<Rightarrow> number \<Rightarrow> string" where
  "channel_message userValue correctValue deviation =
     (if js_seq deviation (Fin 0) then ''Perfect allocation!''
      else if js_le deviation (Fin 5) then ''Very close! Minor adjustment could optimize this.''
      else if js_le deviation (Fin 10) then
        ''Consider '' @ (if js_gt userValue correctValue then ''decreasing'' else ''increasing'')
          @ '' by about '' @ toFixed0 deviation @ ''%.''
      else
        (if js_gt userValue correctValue then ''Over'' else ''Under'')
          @ ''-allocated by '' @ toFixed0 deviation @ ''%. This channel ''
          @ (if js_gt userValue correctValue then ''may be too expensive''
             else ''offers better efficiency'')
          @ ''.'')"

text \<open>
  One round of the \<open>forEach\<close> over the answer key's channels; the state is the pair
  of \<open>totalDeviation\<close> and \<open>channelFeedback\<close>. Both values are used in a subtraction
  and in \<open>>\<close> only, which convert them to numbers.
\<close>

definition channel_step ::
  "num_record \<Rightarrow> num_record \<Rightarrow> string \<Rightarrow> number \<times> (string \<rightharpoonup> string)
     \<Rightarrow> number \<times> (string \<rightharpoonup> string)" where
  "channel_step userAnswer correctAnswer channel st =
     (let userValue = to_number (or_zero (get_property userAnswer channel));
          correctValue = to_number (get_property correctAnswer channel);
          deviation = Math_abs (js_sub userValue correctValue)
      in (js_add (fst st) deviation,
          set_string_property (snd st) channel
            (channel_message userValue correctValue deviation)))"

definition score_message :: "number \<Rightarrow> string" where
  "score_message s =
     (if js_ge s (Fin 90) then ''Excellent work! Your allocation is nearly optimal.''
      else if js_ge s (Fin 75) then ''Good job! A few tweaks could improve efficiency.''
      else if js_ge s (Fin 60) then
        ''Not bad, but there is room for improvement in channel selection.''
      else ''Keep practicing! Consider the relative efficiency of each channel.'')"

definition evaluateAllocation :: "num_record \<Rightarrow> num_record \<Rightarrow> allocation_result" where
  "evaluateAllocation userAnswer correctAnswer =
     (let st = fold (channel_step userAnswer correctAnswer) (Object_keys correctAnswer)
                 (Fin 0, Map.empty);
          totalDeviation = fst st;
          avgDeviation = js_div totalDeviation (Fin (of_nat (length (Object_keys correctAnswer))));
          raw = Math_max (Fin 0) (js_sub (Fin 100) (js_mul avgDeviation (Fin 2)))
      in \<lparr>score = Math_round raw, messages = [score_message raw],
          channelFeedback = snd st\<rparr>)"

section \<open>The projection evaluator (ProjectionBuilder.tsx)\<close>

definition calculateDeviation :: "number \<Rightarrow> number \<Rightarrow> number" where
  "calculateDeviation userValue correctValue =
     (if js_seq correctValue (Fin 0) then (if js_seq userValue (Fin 0) then Fin 0 else Fin 100)
      else js_mul (Math_abs (js_div (js_sub userValue correctValue) correctValue)) (Fin 100))"

record metric_result =
  correct :: number
  user :: number
  isCorrect :: bool
  deviation :: number

text \<open>
  The \<open>results\<close> object starts as \<open>{}\<close> and is assigned one entry object per metric.
  An assignment creates or overwrites an own property, except that for the key
  \<open>__proto__\<close> the inherited setter makes the entry the prototype of \<open>results\<close>. A read
  \<open>results[k]\<close> of \<open>__proto__\<close> yields the prototype; every other read that yields an
  entry yields the own property.
\<close>

record results_object =
  own_properties :: "string \<rightharpoonup> metric_result"
  prototype :: "metric_result option"

definition empty_results :: results_object where
  "empty_results = \<lparr>own_properties = Map.empty, prototype = None\<rparr>"

definition set_result :: "results_object \<Rightarrow> string \<Rightarrow> metric_result \<Rightarrow> results_object" where
  "set_result obj k v =
     (if k = ''__proto__'' then obj\<lparr>prototype := Some v\<rparr>
      else obj\<lparr>own_properties := (own_properties obj)(k \<mapsto> v)\<rparr>)"

definition get_result :: "results_object \<Rightarrow> string \<Rightarrow> metric_result option" where
  "get_result obj k = (if k = ''__proto__'' then prototype obj else own_properties obj k)"

record projection_feedback = scored +
  results :: results_object

text \<open>Of a scenario, the evaluation reads the \<open>answers\<close> only.\<close>

record ProjectionScenario =
  answers :: num_record

text \<open>The points one metric adds to \<open>totalScore\<close>.\<close>

definition band_points :: "number \<Rightarrow> number" where
  "band_points d =
     (if js_seq d (Fin 0) then Fin 100
      else if js_le d (Fin 5) then Fin 95
      else if js_le d (Fin 10) then Fin 85
      else if js_le d (Fin 20) then Fin 70
      else if js_le d (Fin 30) then Fin 50
      else Fin 25)"

text \<open>
  One round of the \<open>forEach\<close> over the entries of the answers; the state is the
  pair of \<open>results\<close> and \<open>totalScore\<close>.
\<close>

definition metric_step ::
  "num_record \<Rightarrow> string \<times> number \<Rightarrow> results_object \<times> number
     \<Rightarrow> results_object \<times> number" where
  "metric_step userAnswers entry st =
     (let key = fst entry;
          correctValue = snd entry;
          userValue = to_number (or_zero (Number (parseFloat (get_property userAnswers key))));
          dev = calculateDeviation userValue correctValue
      in (set_result (fst st) key \<lparr>correct = correctValue, user = userValue,
                                      isCorrect = js_le dev (Fin 10), deviation = dev\<rparr>,
          js_add (snd st) (band_points dev)))"

text \<open>
  \<open>evaluateAnswers\<close> returns at once when there is no current scenario; otherwise
  the value is the feedback object it stores.
\<close>

definition evaluateAnswers ::
  "num_record \<Rightarrow> ProjectionScenario option \<Rightarrow> projection_feedback option" where
  "evaluateAnswers userAnswers currentScenario =
     (case currentScenario of
        None \<Rightarrow> None
      | Some sc \<Rightarrow>
          (let st = fold (metric_step userAnswers) (Object_entries (answers sc))
                      (empty_results, Fin 0);
               totalScore = snd st;
               avgScore = Math_round
                 (js_div totalScore (Fin (of_nat (length (Object_keys (answers sc))))))
           in Some \<lparr>score = avgScore, results = fst st\<rparr>))"

section \<open>Notions used in the statements\<close>

text \<open>The three values the allocation evaluator computes for one channel.\<close>

definition alloc_userValue :: "num_record \<Rightarrow> string \<Rightarrow> number" where
  "alloc_userValue userAnswer channel = to_number (or_zero (get_property userAnswer channel))"

definition alloc_correctValue :: "num_record \<Rightarrow> string \<Rightarrow> number" where
  "alloc_correctValue correctAnswer channel = to_number (get_property correctAnswer channel)"

definition alloc_deviation :: "num_record \<Rightarrow> num_record \<Rightarrow> string \<Rightarrow> number" where
  "alloc_deviation userAnswer correctAnswer channel =
     Math_abs (js_sub (alloc_userValue userAnswer channel) (alloc_correctValue correctAnswer channel))"

text \<open>
  The allocation score as the specification words it: the user's value of a channel
  is \<open>0\<close> when the channel is absent from the user's map, the deviation is the
  absolute difference, the average is taken over the answer key's channels, and the
  score is \<open>max(0, round(100 - avgDeviation * 2))\<close>.
\<close>

definition spec_userValue :: "num_record \<Rightarrow> string \<Rightarrow> number" where
  "spec_userValue userAnswer channel =
     (case map_of userAnswer channel of None \<Rightarrow> Fin 0 | Some v \<Rightarrow> v)"

definition spec_deviation :: "num_record \<Rightarrow> num_record \<Rightarrow> string \<Rightarrow> number" where
  "spec_deviation userAnswer answerKey channel =
     Math_abs (js_sub (spec_userValue userAnswer channel)
       (case map_of answerKey channel of None \<Rightarrow> NaN | Some v \<Rightarrow> v))"

definition spec_avgDeviation :: "num_record \<Rightarrow> num_record \<Rightarrow> number" where
  "spec_avgDeviation userAnswer answerKey =
     js_div (foldr js_add (map (spec_deviation userAnswer answerKey) (Object_keys answerKey)) (Fin 0))
            (Fin (of_nat (length (Object_keys answerKey))))"

definition spec_allocation_score :: "num_record \<Rightarrow> num_record \<Rightarrow> number" where
  "spec_allocation_score userAnswer answerKey =
     Math_max (Fin 0) (Math_round (js_sub (Fin 100) (js_mul (spec_avgDeviation userAnswer answerKey) (Fin 2))))"

text \<open>A map whose values are numbers proper, as \<open>parseFloat(v) || 0\<close> leaves them.\<close>

definition no_NaN :: "num_record \<Rightarrow> bool" where
  "no_NaN r = list_all (\<lambda>(k, v). v \<noteq> NaN) r"

text \<open>
  No channel of the answer key is read from \<open>Object.prototype\<close>: each is an own key
  of the user's map or a name \<open>Object.prototype\<close> does not define.
\<close>

definition reads_no_inherited :: "num_record \<Rightarrow> num_record \<Rightarrow> bool" where
  "reads_no_inherited userAnswer answerKey =
     list_all (\<lambda>ch. get_property userAnswer ch \<noteq> Inherited) (Object_keys answerKey)"

text \<open>The user's map cut down to the channels of the answer key.\<close>

definition only_channels_of :: "num_record \<Rightarrow> num_record \<Rightarrow> num_record" where
  "only_channels_of answerKey userAnswer =
     filter (\<lambda>(k, v). k \<in> set (Object_keys answerKey)) userAnswer"

text \<open>The first seeded scenario and the answers of the specification's concrete cases.\<close>

definition case_key :: num_record where
  "case_key = [(''Google Ads'', Fin 50), (''LinkedIn Ads'', Fin 30), (''Email Marketing'', Fin 20)]"

definition case2_user :: num_record where
  "case2_user = [(''Google Ads'', Fin 60), (''LinkedIn Ads'', Fin 25), (''Email Marketing'', Fin 15)]"
definition wit_user :: num_record where
  "wit_user = [(''Google Ads'', Fin 70), (''Podcast'', Fin 30)]"

text \<open>
  The user's value of one metric and the entry stored for it in \<open>results\<close>, as
  \<open>metric_step\<close> computes them.
\<close>

definition proj_userValue :: "num_record \<Rightarrow> string \<Rightarrow> number" where
  "proj_userValue userAnswers key =
     to_number (or_zero (Number (parseFloat (get_property userAnswers key))))"

definition metric_of :: "num_record \<Rightarrow> string \<Rightarrow> number \<Rightarrow> metric_result" where
  "metric_of userAnswers key correctValue =
     \<lparr>correct = correctValue, user = proj_userValue userAnswers key,
      isCorrect = js_le (calculateDeviation (proj_userValue userAnswers key) correctValue) (Fin 10),
      deviation = calculateDeviation (proj_userValue userAnswers key) correctValue\<rparr>"

text \<open>
  The projection score as the specification words it: the contribution of a metric
  by the band its deviation lies in, and the rounded unweighted average.
\<close>

definition spec_contribution :: "number \<Rightarrow> number" where
  "spec_contribution d =
     (if js_seq d (Fin 0) then Fin 100
      else if js_lt (Fin 0) d \<and> js_le d (Fin 5) then Fin 95
      else if js_lt (Fin 5) d \<and> js_le d (Fin 10) then Fin 85
      else if js_lt (Fin 10) d \<and> js_le d (Fin 20) then Fin 70
      else if js_lt (Fin 20) d \<and> js_le d (Fin 30) then Fin 50
      else Fin 25)"

definition spec_projection_score :: "num_record \<Rightarrow> num_record \<Rightarrow> number" where
  "spec_projection_score userAnswers answerKey =
     Math_round (js_div
       (foldr js_add
          (map (\<lambda>(key, correctValue).
                  spec_contribution (calculateDeviation (proj_userValue userAnswers key) correctValue))
             answerKey)
          (Fin 0))
       (Fin (of_nat (length answerKey))))"

text \<open>A number that is not below zero (NaN is not).\<close>

definition not_negative :: "number \<Rightarrow> bool" where
  "not_negative a = (case a of Fin x \<Rightarrow> 0 \<le> x | PInf \<Rightarrow> True | NInf \<Rightarrow> False | NaN \<Rightarrow> True)"

text \<open>
  The per-channel feedback as the specification words it, each band with both of its
  bounds.
\<close>

definition spec_channel_feedback :: "number \<Rightarrow> number \<Rightarrow> number \<Rightarrow> string" where
  "spec_channel_feedback userValue correctValue d =
     (if js_seq d (Fin 0) then ''Perfect allocation!''
      else if js_lt (Fin 0) d \<and> js_le d (Fin 5) then
        ''Very close! Minor adjustment could optimize this.''
      else if js_lt (Fin 5) d \<and> js_le d (Fin 10) then
        (if js_gt userValue correctValue
         then ''Consider decreasing by about '' @ toFixed0 d @ ''%.''
         else ''Consider increasing by about '' @ toFixed0 d @ ''%.'')
      else
        (if js_gt userValue correctValue
         then ''Over-allocated by '' @ toFixed0 d @ ''%. This channel may be too expensive.''
         else ''Under-allocated by '' @ toFixed0 d @ ''%. This channel offers better efficiency.''))"

text \<open>Concrete case 4, and an answer with one channel in each feedback band.\<close>

definition case4_scenario :: ProjectionScenario where
  "case4_scenario = \<lparr>answers = [(''CAC'', Fin 50)]\<rparr>"

definition case4_user :: num_record where
  "case4_user = [(''CAC'', Fin 55)]"

definition bands_key :: num_record where
  "bands_key = [(''Search'', Fin 40), (''Social'', Fin 30), (''Email'', Fin 20), (''Events'', Fin 10)]"

definition bands_user :: num_record where
  "bands_user = [(''Search'', Fin 45), (''Social'', Fin 20), (''Email'', Fin 20), (''Events'', Fin 25)]"

text \<open>At least zero: a finite number from zero on, or plus infinity.\<close>

definition nonneg :: "number \<Rightarrow> bool" where
  "nonneg a = js_le (Fin 0) a"

text \<open>An integer between 0 and 100.\<close>

definition is_score_0_100 :: "number \<Rightarrow> bool" where
  "is_score_0_100 s =
     (case s of Fin x \<Rightarrow> of_int \<lfloor>x\<rfloor> = x \<and> 0 \<le> x \<and> x \<le> 100 | _ \<Rightarrow> False)"

text \<open>
  A valid answer key has at least one entry, no key twice (it is an object) and
  finite values (it is read from JSON).
\<close>

definition valid_answer_key :: "num_record \<Rightarrow> bool" where
  "valid_answer_key r = (r \<noteq> [] \<and> distinct (Object_keys r) \<and> all_finite r)"

text \<open>Concrete case 3, and an answer whose raw score is just below a band edge.\<close>

definition case3_key :: num_record where
  "case3_key = [(''CAC'', Fin 50), (''LTV'', Fin 90), (''ROI'', Fin (8 / 10)), (''ROAS'', Fin (18 / 10))]"

definition band_edge_user :: num_record where
  "band_edge_user = [(''Google Ads'', Fin 69), (''LinkedIn Ads'', Fin 11), (''Email Marketing'', Fin 20)]"

text \<open>
  An answer key with a channel named like a method of \<open>Object.prototype\<close> that the
  user's map lacks, and an answer key with a channel named \<open>__proto__\<close>.
\<close>

definition inherited_key :: num_record where
  "inherited_key = [(''constructor'', Fin 50), (''Email'', Fin 50)]"

definition inherited_user :: num_record where
  "inherited_user = [(''Email'', Fin 100)]"

definition inherited_user_near :: num_record where
  "inherited_user_near = [(''Email'', Fin 60)]"

definition proto_key :: num_record where
  "proto_key = [(''__proto__'', Fin 50), (''Email'', Fin 50)]"

text \<open>Two answers that differ in one channel only.\<close>

definition mono_key :: num_record where
  "mono_key = [(''Search'', Fin 60), (''Social'', Fin 40)]"

definition mono_near :: num_record where
  "mono_near = [(''Search'', Fin 55), (''Social'', Fin 45)]"

definition mono_far :: num_record where
  "mono_far = [(''Search'', Fin 30), (''Social'', Fin 45)]"

section \<open>Arithmetic of the number model\<close>

lemma js_add_assoc: "js_add (js_add a b) c = js_add a (js_add b c)"
  by (cases a; cases b; cases c) (simp_all add: add.assoc)

lemma js_add_zero_right: "js_add a (Fin 0) = a"
  by (cases a) simp_all

lemma floor_half_rat: "\<lfloor>(1 / 2 :: rat)\<rfloor> = 0"
  by (simp add: floor_eq_iff)

lemma round_nonneg: "0 \<le> x \<Longrightarrow> 0 \<le> \<lfloor>(x::rat) + 1 / 2\<rfloor>"
  by (simp add: zero_le_floor)

lemma round_neg: "\<not> 0 \<le> x \<Longrightarrow> \<lfloor>(x::rat) + 1 / 2\<rfloor> \<le> 0"
proof -
  assume "\<not> 0 \<le> x"
  then have "x + 1 / 2 < 1" by simp
  then have "\<lfloor>x + 1 / 2\<rfloor> < 1" by (simp add: floor_less_iff)
  then show ?thesis by simp
qed

lemma Math_max_round: "Math_max (Fin 0) (Math_round x) = Math_round (Math_max (Fin 0) x)"
proof (cases x)
  case (Fin r)
  show ?thesis
  proof (cases "0 \<le> r")
    case True
    with Fin show ?thesis using round_nonneg [OF True] by simp
  next
    case False
    have "0 \<le> r + 1 / 2 \<Longrightarrow> \<lfloor>r + 1 / 2\<rfloor> = 0"
      using False by (simp add: floor_eq_iff)
    with Fin False show ?thesis using round_neg [OF False] by (simp add: floor_half_rat)
  qed
qed (simp_all add: floor_half_rat)

section \<open>The loop of the allocation evaluator\<close>

lemma channel_step_fst:
  "fst (channel_step ua ak ch st) = js_add (fst st) (alloc_deviation ua ak ch)"
  by (simp add: channel_step_def alloc_deviation_def alloc_userValue_def alloc_correctValue_def Let_def)

lemma channel_step_snd:
  "snd (channel_step ua ak ch st) =
     set_string_property (snd st) ch
       (channel_message (alloc_userValue ua ch) (alloc_correctValue ak ch)
          (alloc_deviation ua ak ch))"
  by (simp add: channel_step_def alloc_deviation_def alloc_userValue_def alloc_correctValue_def Let_def)

lemma fold_channel_step_fst:
  "fst (fold (channel_step ua ak) ks st) =
     js_add (fst st) (foldr js_add (map (alloc_deviation ua ak) ks) (Fin 0))"
proof (induction ks arbitrary: st)
  case Nil
  show ?case by (simp add: js_add_zero_right)
next
  case (Cons k ks)
  show ?case by (simp add: Cons.IH channel_step_fst js_add_assoc)
qed

lemma fold_channel_step_snd:
  "snd (fold (channel_step ua ak) ks st) ch =
     (if ch \<in> set ks \<and> ch \<noteq> ''__proto__''
      then Some (channel_message (alloc_userValue ua ch) (alloc_correctValue ak ch)
                   (alloc_deviation ua ak ch))
      else snd st ch)"
proof (induction ks arbitrary: st)
  case Nil
  show ?case by simp
next
  case (Cons k ks)
  show ?case by (simp add: Cons.IH channel_step_snd set_string_property_def)
qed

lemma js_add_zero_left: "js_add (Fin 0) a = a"
  by (cases a) simp_all

lemma evaluateAllocation_score:
  "score (evaluateAllocation ua ak) =
     Math_round (Math_max (Fin 0) (js_sub (Fin 100) (js_mul
       (js_div (foldr js_add (map (alloc_deviation ua ak) (Object_keys ak)) (Fin 0))
               (Fin (of_nat (length (Object_keys ak)))))
       (Fin 2))))"
  by (simp add: evaluateAllocation_def Let_def fold_channel_step_fst js_add_zero_left)

lemma evaluateAllocation_feedback:
  "channelFeedback (evaluateAllocation ua ak) ch =
     (if ch \<in> set (Object_keys ak) \<and> ch \<noteq> ''__proto__''
      then Some (channel_message (alloc_userValue ua ch) (alloc_correctValue ak ch)
                   (alloc_deviation ua ak ch))
      else None)"
  by (simp add: evaluateAllocation_def Let_def fold_channel_step_snd)

lemma alloc_correctValue_map_of:
  "alloc_correctValue ak ch = (case map_of ak ch of None \<Rightarrow> NaN | Some v \<Rightarrow> v)"
  by (simp add: alloc_correctValue_def get_property_def split: option.splits)

lemma no_NaN_userValue:
  assumes "no_NaN ua" "get_property ua ch \<noteq> Inherited"
  shows "alloc_userValue ua ch = spec_userValue ua ch"
proof (cases "map_of ua ch")
  case None
  with assms(2) show ?thesis
    by (simp add: alloc_userValue_def spec_userValue_def get_property_def split: if_splits)
next
  case (Some v)
  then have "(ch, v) \<in> set ua" by (rule map_of_SomeD)
  with assms(1) have "v \<noteq> NaN" by (auto simp: no_NaN_def list_all_iff)
  with Some show ?thesis
    by (cases v) (simp_all add: alloc_userValue_def spec_userValue_def get_property_def)
qed

lemma no_NaN_deviation:
  assumes "no_NaN ua" "reads_no_inherited ua ak"
  shows "map (alloc_deviation ua ak) (Object_keys ak) = map (spec_deviation ua ak) (Object_keys ak)"
proof (rule map_cong [OF refl])
  fix ch assume "ch \<in> set (Object_keys ak)"
  with assms(2) have "get_property ua ch \<noteq> Inherited"
    by (simp add: reads_no_inherited_def list_all_iff)
  with assms(1) show "alloc_deviation ua ak ch = spec_deviation ua ak ch"
    by (simp add: alloc_deviation_def spec_deviation_def no_NaN_userValue
          alloc_correctValue_map_of)
qed

lemma map_of_filter_keys:
  "ch \<in> S \<Longrightarrow> map_of (filter (\<lambda>(k, v). k \<in> S) r) ch = map_of r ch"
  by (induction r) auto

lemma channel_step_only_channels:
  "ch \<in> set (Object_keys ak) \<Longrightarrow>
     channel_step (only_channels_of ak ua) ak ch = channel_step ua ak ch"
  by (rule ext) (simp add: channel_step_def only_channels_of_def get_property_def map_of_filter_keys)

lemma fold_channel_step_only_channels:
  "fold (channel_step (only_channels_of ak ua) ak) (Object_keys ak) st =
     fold (channel_step ua ak) (Object_keys ak) st"
  by (rule fold_cong) (simp_all add: channel_step_only_channels)

section \<open>The loop of the projection evaluator\<close>

lemma Math_abs_not_negative: "not_negative (Math_abs a)"
  by (cases a) (simp_all add: not_negative_def)

lemma calculateDeviation_not_negative: "not_negative (calculateDeviation u c)"
proof -
  have "not_negative (js_mul (Math_abs a) (Fin 100))" for a
    by (cases a) (simp_all add: not_negative_def signed_inf_def)
  then show ?thesis by (simp add: calculateDeviation_def not_negative_def)
qed

lemma band_points_spec: "not_negative d \<Longrightarrow> band_points d = spec_contribution d"
  by (cases d) (auto simp: band_points_def spec_contribution_def not_negative_def js_lt_def js_gt_def)

lemma get_result_set_result:
  "get_result (set_result obj k v) k' = (if k' = k then Some v else get_result obj k')"
  by (simp add: get_result_def set_result_def)

lemma get_result_empty: "get_result empty_results k = None"
  by (simp add: get_result_def empty_results_def)

lemma metric_step_fst:
  "fst (metric_step ua e st) = set_result (fst st) (fst e) (metric_of ua (fst e) (snd e))"
  by (simp add: metric_step_def metric_of_def proj_userValue_def Let_def)

lemma metric_step_snd:
  "snd (metric_step ua e st) =
     js_add (snd st) (band_points (calculateDeviation (proj_userValue ua (fst e)) (snd e)))"
  by (simp add: metric_step_def proj_userValue_def Let_def)

lemma fold_metric_step_snd:
  "snd (fold (metric_step ua) es st) =
     js_add (snd st)
       (foldr js_add
          (map (\<lambda>e. band_points (calculateDeviation (proj_userValue ua (fst e)) (snd e))) es)
          (Fin 0))"
proof (induction es arbitrary: st)
  case Nil
  show ?case by (simp add: js_add_zero_right)
next
  case (Cons e es)
  show ?case by (simp add: Cons.IH metric_step_snd js_add_assoc)
qed

lemma fold_metric_step_fst:
  "get_result (fst (fold (metric_step ua) es st)) k =
     (case map_of (rev es) k of
        None \<Rightarrow> get_result (fst st) k
      | Some c \<Rightarrow> Some (metric_of ua k c))"
proof (induction es arbitrary: st)
  case Nil
  show ?case by simp
next
  case (Cons e es)
  show ?case
    by (cases e)
      (simp add: Cons.IH metric_step_fst get_result_set_result map_add_def split: option.splits)
qed

lemma evaluateAnswers_score:
  "map_option score (evaluateAnswers ua (Some sc)) =
     Some (Math_round (js_div
       (foldr js_add
          (map (\<lambda>e. band_points (calculateDeviation (proj_userValue ua (fst e)) (snd e)))
             (answers sc))
          (Fin 0))
       (Fin (of_nat (length (answers sc))))))"
  by (simp add: evaluateAnswers_def Let_def fold_metric_step_snd js_add_zero_left
        Object_entries_def Object_keys_def)

lemma evaluateAnswers_results:
  "map_option (\<lambda>fb. get_result (results fb) k) (evaluateAnswers ua (Some sc)) =
     Some (map_option (metric_of ua k) (map_of (rev (answers sc)) k))"
  by (simp add: evaluateAnswers_def Let_def fold_metric_step_fst Object_entries_def
        get_result_empty split: option.splits)

lemma channel_message_spec:
  "not_negative d \<Longrightarrow> channel_message u c d = spec_channel_feedback u c d"
  by (cases d) (auto simp: channel_message_def spec_channel_feedback_def not_negative_def
        js_lt_def js_gt_def)

lemma alloc_deviation_not_negative: "not_negative (alloc_deviation ua ak ch)"
  by (simp add: alloc_deviation_def Math_abs_not_negative)

lemma Math_abs_js_div: "Math_abs (js_div a c) = js_div (Math_abs a) (Math_abs c)"
  by (cases a; cases c) (auto simp: signed_inf_def)

section \<open>Sums of deviations and the score as a function of the total\<close>

lemma nonneg_cases:
  assumes "nonneg a"
  obtains x where "a = Fin x" "0 \<le> x" | "a = PInf"
  using assms by (cases a) (simp_all add: nonneg_def)

lemma nonneg_js_add: "nonneg a \<Longrightarrow> nonneg b \<Longrightarrow> nonneg (js_add a b)"
  by (cases a; cases b) (simp_all add: nonneg_def)

lemma js_le_js_add:
  "nonneg a \<Longrightarrow> nonneg b \<Longrightarrow> js_le a a' \<Longrightarrow> js_le b b' \<Longrightarrow> js_le (js_add a b) (js_add a' b')"
  by (cases a; cases b; cases a'; cases b') (simp_all add: nonneg_def)

lemma nonneg_js_le: "nonneg a \<Longrightarrow> js_le a b \<Longrightarrow> nonneg b"
  by (cases a; cases b) (simp_all add: nonneg_def)

lemma js_le_refl: "nonneg a \<Longrightarrow> js_le a a"
  by (cases a) (simp_all add: nonneg_def)

lemma nonneg_foldr:
  "(\<And>k. k \<in> set ks \<Longrightarrow> nonneg (f k)) \<Longrightarrow> nonneg (foldr js_add (map f ks) (Fin 0))"
  by (induction ks) (simp_all add: nonneg_js_add, simp add: nonneg_def)

lemma js_le_foldr:
  "(\<And>k. k \<in> set ks \<Longrightarrow> nonneg (f k) \<and> js_le (f k) (g k)) \<Longrightarrow>
     js_le (foldr js_add (map f ks) (Fin 0)) (foldr js_add (map g ks) (Fin 0))"
proof (induction ks)
  case Nil
  show ?case by simp
next
  case (Cons k ks)
  have "nonneg (foldr js_add (map f ks) (Fin 0))"
    by (rule nonneg_foldr) (simp add: Cons.prems)
  moreover have "js_le (foldr js_add (map f ks) (Fin 0)) (foldr js_add (map g ks) (Fin 0))"
    by (rule Cons.IH) (simp add: Cons.prems)
  ultimately show ?case
    using Cons.prems [of k] by (simp add: js_le_js_add)
qed


lemma alloc_score_fin:
  assumes "0 \<le> t" "0 < n"
  shows "Math_round (Math_max (Fin 0) (js_sub (Fin 100)
           (js_mul (js_div (Fin t) (Fin (of_nat n))) (Fin 2))))
         = Fin (of_int \<lfloor>max 0 (100 - t / of_nat n * 2) + 1 / 2\<rfloor>)"
  using assms by (simp add: js_sub_def max_def)

lemma alloc_score_inf:
  assumes "0 < n"
  shows "Math_round (Math_max (Fin 0) (js_sub (Fin 100)
           (js_mul (js_div PInf (Fin (of_nat n))) (Fin 2)))) = Fin 0"
  by (simp add: js_sub_def signed_inf_def floor_half_rat)



lemma alloc_score_antimono:
  assumes "nonneg t" "js_le t t'" "0 < n"
  shows "js_le
           (Math_round (Math_max (Fin 0) (js_sub (Fin 100)
              (js_mul (js_div t' (Fin (of_nat n))) (Fin 2)))))
           (Math_round (Math_max (Fin 0) (js_sub (Fin 100)
              (js_mul (js_div t (Fin (of_nat n))) (Fin 2)))))"
proof -
  have t': "nonneg t'" using assms(1,2) by (rule nonneg_js_le)
  show ?thesis
    using assms(1)
  proof (cases rule: nonneg_cases)
    case (1 x)
    note x = 1
    show ?thesis
      using t'
    proof (cases rule: nonneg_cases)
      case (1 x')
      with x assms(2) have "x \<le> x'" by simp
      then have "x / of_nat n \<le> x' / of_nat n" using assms(3) by (simp add: divide_right_mono)
      then have "max 0 (100 - x' / of_nat n * 2) + 1 / 2 \<le> max 0 (100 - x / of_nat n * 2) + 1 / 2"
        by simp
      then have "\<lfloor>max 0 (100 - x' / of_nat n * 2) + 1 / 2\<rfloor> \<le> \<lfloor>max 0 (100 - x / of_nat n * 2) + 1 / 2\<rfloor>"
        by (rule floor_mono)
      then show ?thesis
        using x 1 assms(3) by (simp only: alloc_score_fin js_le.simps of_int_le_iff)
    next
      case 2
      have "0 \<le> \<lfloor>max 0 (100 - x / of_nat n * 2) + 1 / 2\<rfloor>"
        by (simp add: zero_le_floor del: max.bounded_iff) 
      then show ?thesis
        using x 2 assms(3) by (simp only: alloc_score_fin alloc_score_inf js_le.simps of_int_0_le_iff)
    qed
  next
    case 2
    with assms(2) have "t' = PInf" by (cases t') simp_all
    with 2 assms(3) show ?thesis by (simp only: alloc_score_inf js_le.simps order_refl)
  qed
qed

lemma proj_score_mono:
  assumes "x \<le> x'" "0 < n"
  shows "js_le (Math_round (js_div (Fin x) (Fin (of_nat n))))
               (Math_round (js_div (Fin x') (Fin (of_nat n))))"
proof -
  have "x / of_nat n + 1 / 2 \<le> x' / of_nat n + 1 / 2"
    using assms by (simp add: divide_right_mono)
  then have "\<lfloor>x / of_nat n + 1 / 2\<rfloor> \<le> \<lfloor>x' / of_nat n + 1 / 2\<rfloor>" by (rule floor_mono)
  then show ?thesis using assms(2) by simp
qed

lemma all_finite_map_of:
  assumes "all_finite r" "map_of r k = Some v"
  obtains x where "v = Fin x"
proof -
  from assms(2) have "(k, v) \<in> set r" by (rule map_of_SomeD)
  with assms(1) show ?thesis
    using that by (cases v) (auto simp: all_finite_def list_all_iff)
qed

lemma all_finite_entry:
  assumes "all_finite r" "(k, v) \<in> set r"
  obtains x where "v = Fin x"
  using assms that by (cases v) (auto simp: all_finite_def list_all_iff)

lemma key_map_of:
  assumes "k \<in> set (Object_keys r)"
  obtains v where "map_of r k = Some v"
proof -
  from assms have "k \<in> dom (map_of r)" by (simp add: Object_keys_def dom_map_of_conv_image_fst)
  then show ?thesis using that by blast
qed

lemma key_get_property:
  assumes "k \<in> set (Object_keys r)"
  obtains v where "map_of r k = Some v" "get_property r k = Number v"
proof -
  from assms obtain v where "map_of r k = Some v" by (rule key_map_of)
  then show ?thesis using that by (simp add: get_property_def)
qed

lemma Math_abs_cases: "Math_abs a = NaN \<or> nonneg (Math_abs a)"
  by (cases a) (simp_all add: nonneg_def)

lemma alloc_deviation_nonneg:
  "alloc_deviation ua ak ch \<noteq> NaN \<Longrightarrow> nonneg (alloc_deviation ua ak ch)"
  using Math_abs_cases [of "js_sub (alloc_userValue ua ch) (alloc_correctValue ak ch)"]
  by (simp add: alloc_deviation_def)

lemma alloc_userValue_not_NaN:
  assumes "get_property ua ch \<noteq> Inherited"
  shows "alloc_userValue ua ch \<noteq> NaN"
proof (cases "get_property ua ch")
  case Undefined
  then show ?thesis by (simp add: alloc_userValue_def)
next
  case (Number v)
  then show ?thesis by (cases v) (simp_all add: alloc_userValue_def)
next
  case Inherited
  with assms show ?thesis by simp
qed

lemma alloc_deviation_not_NaN:
  assumes "all_finite ak" "ch \<in> set (Object_keys ak)" "get_property ua ch \<noteq> Inherited"
  shows "alloc_deviation ua ak ch \<noteq> NaN"
proof -
  from assms(2) obtain v where v: "map_of ak ch = Some v" "get_property ak ch = Number v"
    by (rule key_get_property)
  from assms(1) v(1) obtain c where c: "v = Fin c" by (rule all_finite_map_of)
  from assms(3) have "alloc_userValue ua ch \<noteq> NaN" by (rule alloc_userValue_not_NaN)
  then show ?thesis
    by (cases "alloc_userValue ua ch")
      (simp_all add: alloc_deviation_def alloc_correctValue_def v c js_sub_def)
qed

lemma js_add_NaN_right: "js_add a NaN = NaN"
  by (cases a) simp_all

lemma foldr_js_add_NaN:
  "k \<in> set ks \<Longrightarrow> f k = NaN \<Longrightarrow> foldr js_add (map f ks) (Fin 0) = NaN"
  by (induction ks) (auto simp: js_add_NaN_right)

lemma alloc_score_NaN:
  "Math_round (Math_max (Fin 0) (js_sub (Fin 100) (js_mul (js_div NaN n) (Fin 2)))) = NaN"
  by (simp add: js_sub_def)


lemma alloc_deviation_cong:
  "map_of ua k = map_of ua' k \<Longrightarrow> alloc_deviation ua ak k = alloc_deviation ua' ak k"
  by (simp add: alloc_deviation_def alloc_userValue_def get_property_def)

lemma keys_nonempty: "r \<noteq> [] \<Longrightarrow> 0 < length (Object_keys r)"
  by (simp add: Object_keys_def)

section \<open>Answering with the key itself\<close>

lemma foldr_js_add_const:
  "(\<And>k. k \<in> set ks \<Longrightarrow> f k = Fin c) \<Longrightarrow>
     foldr js_add (map f ks) (Fin 0) = Fin (c * of_nat (length ks))"
  by (induction ks) (simp_all add: algebra_simps)

lemma round_100: "\<lfloor>(201 / 2 :: rat)\<rfloor> = 100"
  by (rule floor_unique) simp_all

lemma map_of_rev_distinct:
  assumes "distinct (map fst r)"
  shows "map_of (rev r) k = map_of r k"
proof (cases "map_of r k")
  case None
  then have "k \<notin> fst ` set (rev r)" by (simp add: map_of_eq_None_iff)
  then have "map_of (rev r) k = None" by (simp add: map_of_eq_None_iff)
  with None show ?thesis by simp
next
  case (Some v)
  then have "(k, v) \<in> set (rev r)" using map_of_SomeD by fastforce
  moreover have "distinct (map fst (rev r))" using assms by (simp add: rev_map [symmetric])
  ultimately have "map_of (rev r) k = Some v" by (rule map_of_is_SomeI [rotated])
  with Some show ?thesis by simp
qed

lemma alloc_deviation_self:
  assumes "all_finite ak" "ch \<in> set (Object_keys ak)"
  shows "alloc_userValue ak ch = alloc_correctValue ak ch \<and> alloc_deviation ak ak ch = Fin 0"
proof -
  from assms(2) obtain v where v: "map_of ak ch = Some v" "get_property ak ch = Number v"
    by (rule key_get_property)
  from assms(1) v(1) obtain c where c: "v = Fin c" by (rule all_finite_map_of)
  show ?thesis
    by (simp add: alloc_deviation_def alloc_userValue_def alloc_correctValue_def v c js_sub_def)
qed

lemma calculateDeviation_self: "calculateDeviation (Fin y) (Fin y) = Fin 0"
  by (simp add: calculateDeviation_def js_sub_def)

lemma proj_deviation_self:
  assumes "all_finite ak" "distinct (Object_keys ak)" "(k, c) \<in> set ak"
  shows "calculateDeviation (proj_userValue ak k) c = Fin 0"
proof -
  from assms(2,3) have m: "map_of ak k = Some c" by (simp add: Object_keys_def)
  from assms(1,3) obtain y where y: "c = Fin y" by (rule all_finite_entry)
  show ?thesis by (simp add: proj_userValue_def get_property_def m y calculateDeviation_self)
qed

lemma perfect_allocation:
  assumes "valid_answer_key ak"
  shows "score (evaluateAllocation ak ak) = Fin 100"
    and "ch \<in> set (Object_keys ak) \<Longrightarrow> ch \<noteq> ''__proto__'' \<Longrightarrow>
           channelFeedback (evaluateAllocation ak ak) ch = Some ''Perfect allocation!''"
proof -
  from assms have fin: "all_finite ak" and ne: "ak \<noteq> []"
    by (simp_all add: valid_answer_key_def)
  have n: "0 < length (Object_keys ak)" using ne by (rule keys_nonempty)
  have "foldr js_add (map (alloc_deviation ak ak) (Object_keys ak)) (Fin 0)
          = Fin (0 * of_nat (length (Object_keys ak)))"
    by (rule foldr_js_add_const) (simp add: alloc_deviation_self [OF fin])
  then have total: "foldr js_add (map (alloc_deviation ak ak) (Object_keys ak)) (Fin 0) = Fin 0"
    by simp
  show "score (evaluateAllocation ak ak) = Fin 100"
    unfolding evaluateAllocation_score total alloc_score_fin [OF order_refl n]
    by (simp add: round_100)
  show "channelFeedback (evaluateAllocation ak ak) ch = Some ''Perfect allocation!''"
    if "ch \<in> set (Object_keys ak)" "ch \<noteq> ''__proto__''"
    using that alloc_deviation_self [OF fin that(1)]
    by (simp add: evaluateAllocation_feedback channel_message_def)
qed

lemma perfect_projection:
  assumes "valid_answer_key ak"
  shows "map_option score (evaluateAnswers ak (Some \<lparr>answers = ak\<rparr>)) = Some (Fin 100)"
    and "k \<in> set (Object_keys ak) \<Longrightarrow>
           \<exists>fb r. evaluateAnswers ak (Some \<lparr>answers = ak\<rparr>) = Some fb
             \<and> get_result (results fb) k = Some r \<and> isCorrect r \<and> deviation r = Fin 0"
proof -
  from assms have fin: "all_finite ak" and ne: "ak \<noteq> []" and dist: "distinct (Object_keys ak)"
    by (simp_all add: valid_answer_key_def)
  have "foldr js_add
          (map (\<lambda>e. band_points (calculateDeviation (proj_userValue ak (fst e)) (snd e))) ak)
          (Fin 0) = Fin (100 * of_nat (length ak))"
  proof (rule foldr_js_add_const)
    fix e assume "e \<in> set ak"
    then have "(fst e, snd e) \<in> set ak" by simp
    then have "calculateDeviation (proj_userValue ak (fst e)) (snd e) = Fin 0"
      by (rule proj_deviation_self [OF fin dist])
    then show "band_points (calculateDeviation (proj_userValue ak (fst e)) (snd e)) = Fin 100"
      by (simp add: band_points_def)
  qed
  moreover have "of_nat (length ak) \<noteq> (0::rat)" using ne by simp
  ultimately show "map_option score (evaluateAnswers ak (Some \<lparr>answers = ak\<rparr>)) = Some (Fin 100)"
    by (simp add: evaluateAnswers_score round_100)
  show "\<exists>fb r. evaluateAnswers ak (Some \<lparr>answers = ak\<rparr>) = Some fb
             \<and> get_result (results fb) k = Some r \<and> isCorrect r \<and> deviation r = Fin 0"
    if "k \<in> set (Object_keys ak)"
  proof -
    from that obtain c where c: "map_of ak k = Some c" by (rule key_map_of)
    then have mem: "(k, c) \<in> set ak" by (rule map_of_SomeD)
    have d: "calculateDeviation (proj_userValue ak k) c = Fin 0"
      using mem by (rule proj_deviation_self [OF fin dist])
    have rv: "map_of (rev ak) k = Some c"
      using dist c by (simp add: Object_keys_def map_of_rev_distinct)
    obtain fb where fb: "evaluateAnswers ak (Some \<lparr>answers = ak\<rparr>) = Some fb"
      by (simp add: evaluateAnswers_def Let_def)
    with evaluateAnswers_results [of k ak "\<lparr>answers = ak\<rparr>"] rv
    have "get_result (results fb) k = Some (metric_of ak k c)" by simp
    with fb d show ?thesis by (simp add: metric_of_def)
  qed
qed

section \<open>Monotonicity\<close>

lemma band_points_fin: "\<exists>x. band_points d = Fin x \<and> 0 \<le> x"
  by (simp add: band_points_def)

lemma band_points_cases:
  obtains x where "band_points d = Fin x" "0 \<le> x"
  using band_points_fin [of d] by blast

lemma band_points_Fin:
  "band_points (Fin x) = Fin (if x = 0 then 100 else if x \<le> 5 then 95 else if x \<le> 10 then 85
                              else if x \<le> 20 then 70 else if x \<le> 30 then 50 else 25)"
  by (simp add: band_points_def)

lemma band_points_PInf: "band_points PInf = Fin 25"
  by (simp add: band_points_def)

lemma band_points_antimono:
  assumes "js_le d d'" "not_negative d"
  shows "js_le (band_points d') (band_points d)"
proof (cases d)
  case (Fin x)
  note d = Fin
  show ?thesis
  proof (cases d')
    case (Fin x')
    with d assms have "0 \<le> x" "x \<le> x'" by (simp_all add: not_negative_def)
    then show ?thesis unfolding d Fin band_points_Fin js_le.simps
      by (simp split: if_splits)
  next
    case PInf
    show ?thesis unfolding d PInf band_points_Fin band_points_PInf js_le.simps by simp
  qed (use d assms in simp_all)
next
  case PInf
  with assms(1) have "d' = PInf" by (cases d') simp_all
  with PInf show ?thesis by (simp add: band_points_def)
qed (use assms in \<open>simp_all add: not_negative_def\<close>)

lemma band_points_refl: "js_le (band_points d) (band_points d)"
  by (rule band_points_cases [of d]) simp

lemma fin_foldr:
  "(\<And>k. k \<in> set ks \<Longrightarrow> \<exists>x. f k = Fin x) \<Longrightarrow> \<exists>x. foldr js_add (map f ks) (Fin 0) = Fin x"
proof (induction ks)
  case Nil
  show ?case by simp
next
  case (Cons k ks)
  from Cons.prems [of k] obtain a where a: "f k = Fin a" by auto
  from Cons.IH Cons.prems obtain b where b: "foldr js_add (map f ks) (Fin 0) = Fin b" by auto
  show ?case by (simp add: a b)
qed

lemma proj_userValue_cong:
  "map_of ua k = map_of ua' k \<Longrightarrow> proj_userValue ua k = proj_userValue ua' k"
  by (simp add: proj_userValue_def get_property_def)

lemma allocation_monotone:
  assumes key: "ch \<in> set (Object_keys ak)"
    and agree: "\<forall>k. k \<noteq> ch \<longrightarrow> map_of ua k = map_of ua' k"
    and le: "js_le (alloc_deviation ua ak ch) (alloc_deviation ua' ak ch)"
    and ok: "\<forall>k \<in> set (Object_keys ak). alloc_deviation ua ak k \<noteq> NaN"
  shows "js_le (score (evaluateAllocation ua' ak)) (score (evaluateAllocation ua ak))"
proof -
  have nn: "nonneg (alloc_deviation ua ak k)" if k: "k \<in> set (Object_keys ak)" for k
    using ok k by (simp add: alloc_deviation_nonneg)
  have step: "nonneg (alloc_deviation ua ak k)
                \<and> js_le (alloc_deviation ua ak k) (alloc_deviation ua' ak k)"
    if k: "k \<in> set (Object_keys ak)" for k
  proof (cases "k = ch")
    case True
    with le nn [OF k] show ?thesis by simp
  next
    case False
    with agree have "map_of ua k = map_of ua' k" by blast
    then have "alloc_deviation ua ak k = alloc_deviation ua' ak k"
      by (rule alloc_deviation_cong)
    with nn [OF k] show ?thesis
      by (simp add: js_le_refl)
  qed
  have n: "0 < length (Object_keys ak)" using key by (cases ak) (simp_all add: Object_keys_def)
  have "nonneg (foldr js_add (map (alloc_deviation ua ak) (Object_keys ak)) (Fin 0))"
    by (rule nonneg_foldr) (rule nn)
  moreover have "js_le (foldr js_add (map (alloc_deviation ua ak) (Object_keys ak)) (Fin 0))
                   (foldr js_add (map (alloc_deviation ua' ak) (Object_keys ak)) (Fin 0))"
    by (rule js_le_foldr) (rule step)
  ultimately show ?thesis
    unfolding evaluateAllocation_score using n by (rule alloc_score_antimono)
qed

lemma js_le_not_js_gt: "js_le a b \<Longrightarrow> \<not> js_gt a b"
  by (cases a; cases b) (simp_all add: js_gt_def)

lemma allocation_both_NaN:
  assumes agree: "\<forall>k. k \<noteq> ch \<longrightarrow> map_of ua k = map_of ua' k"
    and le: "js_le (alloc_deviation ua ak ch) (alloc_deviation ua' ak ch)"
    and bad: "\<exists>k \<in> set (Object_keys ak). alloc_deviation ua ak k = NaN"
  shows "score (evaluateAllocation ua ak) = NaN \<and> score (evaluateAllocation ua' ak) = NaN"
proof -
  from bad obtain k where k: "k \<in> set (Object_keys ak)" and d: "alloc_deviation ua ak k = NaN"
    by blast
  from le d have "k \<noteq> ch" by (cases "k = ch") auto
  with agree have "map_of ua k = map_of ua' k" by blast
  then have "alloc_deviation ua ak k = alloc_deviation ua' ak k" by (rule alloc_deviation_cong)
  with d have d': "alloc_deviation ua' ak k = NaN" by simp
  have "foldr js_add (map (alloc_deviation ua ak) (Object_keys ak)) (Fin 0) = NaN"
    using k d by (rule foldr_js_add_NaN)
  moreover have "foldr js_add (map (alloc_deviation ua' ak) (Object_keys ak)) (Fin 0) = NaN"
    using k d' by (rule foldr_js_add_NaN)
  ultimately show ?thesis by (simp only: evaluateAllocation_score alloc_score_NaN)
qed

lemma projection_monotone:
  assumes key: "m \<in> set (Object_keys (answers sc))"
    and agree: "\<forall>k. k \<noteq> m \<longrightarrow> map_of pa k = map_of pa' k"
    and le: "\<forall>c. (m, c) \<in> set (answers sc) \<longrightarrow>
               js_le (calculateDeviation (proj_userValue pa m) c)
                     (calculateDeviation (proj_userValue pa' m) c)"
  shows "\<exists>fb fb'. evaluateAnswers pa (Some sc) = Some fb \<and> evaluateAnswers pa' (Some sc) = Some fb'
           \<and> js_le (score fb') (score fb)"
proof -
  let ?F = "\<lambda>ua e. band_points (calculateDeviation (proj_userValue ua (fst e)) (snd e))"
  have step: "nonneg (?F pa' e) \<and> js_le (?F pa' e) (?F pa e)" if e: "e \<in> set (answers sc)" for e
  proof -
    have nn: "nonneg (?F pa' e)"
      by (rule band_points_cases [of "calculateDeviation (proj_userValue pa' (fst e)) (snd e)"])
        (simp add: nonneg_def)
    show ?thesis
    proof (cases "fst e = m")
      case True
      with e have "(m, snd e) \<in> set (answers sc)" by auto
      with le have "js_le (calculateDeviation (proj_userValue pa m) (snd e))
                          (calculateDeviation (proj_userValue pa' m) (snd e))" by blast
      then have "js_le (?F pa' e) (?F pa e)"
        unfolding True by (rule band_points_antimono) (rule calculateDeviation_not_negative)
      with nn show ?thesis by simp
    next
      case False
      with agree have "map_of pa (fst e) = map_of pa' (fst e)" by blast
      then have "proj_userValue pa (fst e) = proj_userValue pa' (fst e)"
        by (rule proj_userValue_cong)
      with nn show ?thesis by (simp add: band_points_refl)
    qed
  qed
  have n: "0 < length (answers sc)" using key by (cases "answers sc") (simp_all add: Object_keys_def)
  have fin: "\<exists>x. ?F ua e = Fin x" for ua e
    by (rule band_points_cases [of "calculateDeviation (proj_userValue ua (fst e)) (snd e)"]) simp
  obtain t where t: "foldr js_add (map (?F pa) (answers sc)) (Fin 0) = Fin t"
    using fin_foldr [of "answers sc" "?F pa"] fin by blast
  obtain t' where t': "foldr js_add (map (?F pa') (answers sc)) (Fin 0) = Fin t'"
    using fin_foldr [of "answers sc" "?F pa'"] fin by blast
  have "js_le (foldr js_add (map (?F pa') (answers sc)) (Fin 0))
              (foldr js_add (map (?F pa) (answers sc)) (Fin 0))"
    by (rule js_le_foldr) (rule step)
  then have "t' \<le> t" by (simp add: t t')
  then have le_score: "js_le (Math_round (js_div (Fin t') (Fin (of_nat (length (answers sc))))))
               (Math_round (js_div (Fin t) (Fin (of_nat (length (answers sc))))))"
    using n by (rule proj_score_mono)
  obtain fb where fb: "evaluateAnswers pa (Some sc) = Some fb"
    by (simp add: evaluateAnswers_def Let_def)
  obtain fb' where fb': "evaluateAnswers pa' (Some sc) = Some fb'"
    by (simp add: evaluateAnswers_def Let_def)
  from evaluateAnswers_score [of pa sc] fb t
  have s: "score fb = Math_round (js_div (Fin t) (Fin (of_nat (length (answers sc)))))" by simp
  from evaluateAnswers_score [of pa' sc] fb' t'
  have s': "score fb' = Math_round (js_div (Fin t') (Fin (of_nat (length (answers sc)))))" by simp
  from le_score have "js_le (score fb') (score fb)" by (simp only: s s')
  with fb fb' show ?thesis by (intro exI [of _ fb] exI [of _ fb'] conjI)
qed

section \<open>The claims\<close>

text \<open>
  C1, as amended. For every answer key and every user allocation map (its values
  numbers, not NaN) such that no channel of the key is read from \<open>Object.prototype\<close>,
  \<open>evaluateAllocation\<close> returns the score \<open>max(0, round(100 - avgDeviation * 2))\<close>,
  where the average is the sum over the answer key's channels of
  \<open>|userValue - correctValue|\<close> divided by their number and a channel absent from the
  user's map counts as \<open>0\<close>; channels of the user's map outside the answer key change
  nothing; and the key 50/30/20 with the answer 60/25/15 scores 87. (As stated, for
  every map and key, the claim fails where the key has a channel \<open>constructor\<close> that
  the user's map lacks: the read yields a function, not \<open>undefined\<close>, and the score is
  NaN.)
\<close>

theorem allocation_score_formula:
  "(no_NaN userAnswer \<and> reads_no_inherited userAnswer answerKey \<longrightarrow>
      score (evaluateAllocation userAnswer answerKey) = spec_allocation_score userAnswer answerKey)
   \<and> evaluateAllocation (only_channels_of answerKey userAnswer) answerKey
       = evaluateAllocation userAnswer answerKey
   \<and> score (evaluateAllocation case2_user case_key) = Fin 87"
proof (intro conjI impI)
  assume "no_NaN userAnswer \<and> reads_no_inherited userAnswer answerKey"
  then have eq: "map (alloc_deviation userAnswer answerKey) (Object_keys answerKey)
               = map (spec_deviation userAnswer answerKey) (Object_keys answerKey)"
    by (intro no_NaN_deviation) simp_all
  show "score (evaluateAllocation userAnswer answerKey)
               = spec_allocation_score userAnswer answerKey"
    by (simp only: evaluateAllocation_score spec_allocation_score_def spec_avgDeviation_def
          Math_max_round eq)
next
  show "evaluateAllocation (only_channels_of answerKey userAnswer) answerKey
          = evaluateAllocation userAnswer answerKey"
    by (simp add: evaluateAllocation_def fold_channel_step_only_channels)
next
  show "score (evaluateAllocation case2_user case_key) = Fin 87"
    by code_simp
qed

theorem allocation_score_formula_witness:
  "no_NaN wit_user \<and> reads_no_inherited wit_user case_key
   \<and> score (evaluateAllocation wit_user case_key) = Fin 53
   \<and> spec_allocation_score wit_user case_key = Fin 53"
proof -
  have h: "no_NaN wit_user" by code_simp
  have r: "reads_no_inherited wit_user case_key" by code_simp
  have v: "score (evaluateAllocation wit_user case_key) = Fin 53" by code_simp
  from allocation_score_formula [of wit_user case_key] h r
  have "score (evaluateAllocation wit_user case_key) = spec_allocation_score wit_user case_key"
    by blast
  with h r v show ?thesis by simp
qed

theorem allocation_score_formula_counterexample:
  "no_NaN inherited_user
   \<and> map_of inherited_user ''constructor'' = None
   \<and> score (evaluateAllocation inherited_user inherited_key) = NaN
   \<and> spec_allocation_score inherited_user inherited_key = Fin 0"
  by code_simp

text \<open>
  C2. For every user projection map and every projection answer key, each metric of
  the answer key adds a contribution that depends on its deviation alone, by the step
  function \<open>0 \<rightarrow> 100\<close>, \<open>(0,5] \<rightarrow> 95\<close>, \<open>(5,10] \<rightarrow> 85\<close>, \<open>(10,20] \<rightarrow> 70\<close>,
  \<open>(20,30] \<rightarrow> 50\<close>, else \<open>25\<close>, and the score is the rounded sum of the contributions
  divided by the number of metrics.
\<close>

theorem projection_score_formula:
  "map_option score (evaluateAnswers userAnswers (Some scenario))
     = Some (spec_projection_score userAnswers (answers scenario))"
proof -
  have "(\<lambda>e. band_points (calculateDeviation (proj_userValue userAnswers (fst e)) (snd e)))
          = (\<lambda>(key, correctValue).
               spec_contribution (calculateDeviation (proj_userValue userAnswers key) correctValue))"
    by (auto simp: fun_eq_iff band_points_spec calculateDeviation_not_negative)
  then show ?thesis
    by (simp add: evaluateAnswers_score spec_projection_score_def)
qed

text \<open>
  C3. The claim is that the top-level message is the band of the returned score. On
  the key 50/30/20 with the answer 69/11/20 the average deviation is \<open>38/3\<close>: the
  evaluator returns the score 75, whose band is "Good job!", with the message of the
  band below 75, which it chose from the unrounded \<open>74.67\<close>.
\<close>

theorem message_chosen_before_rounding:
  "score (evaluateAllocation band_edge_user case_key) = Fin 75
   \<and> messages (evaluateAllocation band_edge_user case_key)
       = [''Not bad, but there is room for improvement in channel selection.'']
   \<and> score_message (score (evaluateAllocation band_edge_user case_key))
       = ''Good job! A few tweaks could improve efficiency.''"
  by code_simp

text \<open>
  C4. For every pair of a user value and a correct value, the projection deviation
  is \<open>0\<close> when both are zero, \<open>100\<close> when only the correct value is zero, and
  \<open>|userValue - correctValue| / |correctValue| * 100\<close> otherwise; on finite values the
  result is finite, so no division by zero is ever evaluated.
\<close>

theorem calculateDeviation_formula:
  "calculateDeviation userValue correctValue =
     (if js_seq correctValue (Fin 0) then (if js_seq userValue (Fin 0) then Fin 0 else Fin 100)
      else js_mul (js_div (Math_abs (js_sub userValue correctValue)) (Math_abs correctValue))
             (Fin 100))
   \<and> calculateDeviation (Fin x) (Fin y) =
       Fin (if y = 0 then (if x = 0 then 0 else 100) else \<bar>x - y\<bar> / \<bar>y\<bar> * 100)"
  by (simp add: calculateDeviation_def Math_abs_js_div js_sub_def)



text \<open>
  C6, as amended. For every channel of the answer key other than one named
  \<open>__proto__\<close>, the feedback string is chosen by the deviation: \<open>0\<close> gives "Perfect
  allocation!", \<open>(0,5]\<close> "Very close! ...", \<open>(5,10]\<close> "Consider decreasing/increasing by
  about N%." (decreasing when the user's value is above the correct one) and beyond 10
  "Over-allocated ... may be too expensive" or "Under-allocated ... offers better
  efficiency", with N the deviation rounded to an integer; a deviation on a boundary
  takes the lower band. A channel named \<open>__proto__\<close> gets no feedback string. (As
  stated, for every channel, the claim fails on that channel: the assignment runs the
  inherited setter, which ignores the string.)
\<close>

theorem channel_feedback_bands:
  assumes "channel \<in> set (Object_keys answerKey)" "channel \<noteq> ''__proto__''"
  shows "channelFeedback (evaluateAllocation userAnswer answerKey) channel =
           Some (spec_channel_feedback (alloc_userValue userAnswer channel)
                   (alloc_correctValue answerKey channel)
                   (alloc_deviation userAnswer answerKey channel))
         \<and> channelFeedback (evaluateAllocation userAnswer answerKey) ''__proto__'' = None"
  using assms
  by (simp add: evaluateAllocation_feedback channel_message_spec alloc_deviation_not_negative)

theorem channel_feedback_bands_witness:
  "''Search'' \<in> set (Object_keys bands_key)
   \<and> channelFeedback (evaluateAllocation bands_user bands_key) ''Search''
       = Some ''Very close! Minor adjustment could optimize this.''
   \<and> ''Social'' \<in> set (Object_keys bands_key)
   \<and> channelFeedback (evaluateAllocation bands_user bands_key) ''Social''
       = Some ''Consider increasing by about 10%.''
   \<and> ''Email'' \<in> set (Object_keys bands_key)
   \<and> channelFeedback (evaluateAllocation bands_user bands_key) ''Email''
       = Some ''Perfect allocation!''
   \<and> ''Events'' \<in> set (Object_keys bands_key)
   \<and> channelFeedback (evaluateAllocation bands_user bands_key) ''Events''
       = Some ''Over-allocated by 15%. This channel may be too expensive.''"
proof -
  have h1: "''Search'' \<in> set (Object_keys bands_key)" by code_simp
  have h2: "''Social'' \<in> set (Object_keys bands_key)" by code_simp
  have h3: "''Email'' \<in> set (Object_keys bands_key)" by code_simp
  have h4: "''Events'' \<in> set (Object_keys bands_key)" by code_simp
  have n1: "''Search'' \<noteq> ''__proto__''" by simp
  have n2: "''Social'' \<noteq> ''__proto__''" by simp
  have n3: "''Email'' \<noteq> ''__proto__''" by simp
  have n4: "''Events'' \<noteq> ''__proto__''" by simp
  have v1: "spec_channel_feedback (alloc_userValue bands_user ''Search'')
              (alloc_correctValue bands_key ''Search'') (alloc_deviation bands_user bands_key ''Search'')
            = ''Very close! Minor adjustment could optimize this.''" by code_simp
  have v2: "spec_channel_feedback (alloc_userValue bands_user ''Social'')
              (alloc_correctValue bands_key ''Social'') (alloc_deviation bands_user bands_key ''Social'')
            = ''Consider increasing by about 10%.''" by code_simp
  have v3: "spec_channel_feedback (alloc_userValue bands_user ''Email'')
              (alloc_correctValue bands_key ''Email'') (alloc_deviation bands_user bands_key ''Email'')
            = ''Perfect allocation!''" by code_simp
  have v4: "spec_channel_feedback (alloc_userValue bands_user ''Events'')
              (alloc_correctValue bands_key ''Events'') (alloc_deviation bands_user bands_key ''Events'')
            = ''Over-allocated by 15%. This channel may be too expensive.''" by code_simp
  show ?thesis
    using channel_feedback_bands [OF h1 n1, of bands_user, THEN conjunct1]
      channel_feedback_bands [OF h2 n2, of bands_user, THEN conjunct1]
      channel_feedback_bands [OF h3 n3, of bands_user, THEN conjunct1]
      channel_feedback_bands [OF h4 n4, of bands_user, THEN conjunct1]
      h1 h2 h3 h4 v1 v2 v3 v4
    by simp
qed

theorem channel_feedback_bands_counterexample:
  "''__proto__'' \<in> set (Object_keys proto_key)
   \<and> alloc_deviation proto_key proto_key ''__proto__'' = Fin 0
   \<and> channelFeedback (evaluateAllocation proto_key proto_key) ''__proto__'' = None"
  by code_simp

text \<open>
  C7, as amended. For every valid answer key (not empty, its keys distinct, its
  values finite), answering with the key itself is perfect: \<open>evaluateAllocation\<close>
  returns the score 100 and "Perfect allocation!" for every channel other than one
  named \<open>__proto__\<close>, and the projection evaluator returns the score 100 with every
  metric correct at deviation 0. (As stated, for every channel, the claim fails on a
  channel named \<open>__proto__\<close>, which gets no feedback string.)
\<close>

theorem perfect_answer:
  assumes "valid_answer_key answerKey"
  shows "score (evaluateAllocation answerKey answerKey) = Fin 100
         \<and> (\<forall>ch \<in> set (Object_keys answerKey). ch \<noteq> ''__proto__'' \<longrightarrow>
               channelFeedback (evaluateAllocation answerKey answerKey) ch
                 = Some ''Perfect allocation!'')
         \<and> (\<exists>fb. evaluateAnswers answerKey (Some \<lparr>answers = answerKey\<rparr>) = Some fb
               \<and> score fb = Fin 100
               \<and> (\<forall>k \<in> set (Object_keys answerKey).
                     \<exists>r. get_result (results fb) k = Some r \<and> isCorrect r
                       \<and> deviation r = Fin 0))"
proof (intro conjI ballI impI)
  show "score (evaluateAllocation answerKey answerKey) = Fin 100"
    using assms by (rule perfect_allocation(1))
next
  fix ch assume "ch \<in> set (Object_keys answerKey)" "ch \<noteq> ''__proto__''"
  then show "channelFeedback (evaluateAllocation answerKey answerKey) ch
               = Some ''Perfect allocation!''"
    by (rule perfect_allocation(2) [OF assms])
next
  obtain fb where fb: "evaluateAnswers answerKey (Some \<lparr>answers = answerKey\<rparr>) = Some fb"
    by (simp add: evaluateAnswers_def Let_def)
  with perfect_projection(1) [OF assms] have s: "score fb = Fin 100" by simp
  have "\<exists>r. get_result (results fb) k = Some r \<and> isCorrect r \<and> deviation r = Fin 0"
    if "k \<in> set (Object_keys answerKey)" for k
    using perfect_projection(2) [OF assms that] fb by auto
  with fb s show "\<exists>fb. evaluateAnswers answerKey (Some \<lparr>answers = answerKey\<rparr>) = Some fb
               \<and> score fb = Fin 100
               \<and> (\<forall>k \<in> set (Object_keys answerKey).
                     \<exists>r. get_result (results fb) k = Some r \<and> isCorrect r
                       \<and> deviation r = Fin 0)"
    by blast
qed

theorem perfect_answer_witness:
  "valid_answer_key case_key \<and> valid_answer_key case3_key
   \<and> score (evaluateAllocation case_key case_key) = Fin 100
   \<and> messages (evaluateAllocation case_key case_key)
       = [''Excellent work! Your allocation is nearly optimal.'']
   \<and> channelFeedback (evaluateAllocation case_key case_key) ''LinkedIn Ads''
       = Some ''Perfect allocation!''
   \<and> (\<exists>fb. evaluateAnswers case3_key (Some \<lparr>answers = case3_key\<rparr>) = Some fb
         \<and> score fb = Fin 100
         \<and> (\<exists>r. get_result (results fb) ''CAC'' = Some r \<and> isCorrect r \<and> deviation r = Fin 0)
         \<and> (\<exists>r. get_result (results fb) ''LTV'' = Some r \<and> isCorrect r \<and> deviation r = Fin 0)
         \<and> (\<exists>r. get_result (results fb) ''ROI'' = Some r \<and> isCorrect r \<and> deviation r = Fin 0)
         \<and> (\<exists>r. get_result (results fb) ''ROAS'' = Some r \<and> isCorrect r \<and> deviation r = Fin 0))"
proof -
  have h1: "valid_answer_key case_key" by code_simp
  have h3: "valid_answer_key case3_key" by code_simp
  have m: "messages (evaluateAllocation case_key case_key)
             = [''Excellent work! Your allocation is nearly optimal.'']" by code_simp
  have c: "''LinkedIn Ads'' \<in> set (Object_keys case_key)" by code_simp
  have cn: "''LinkedIn Ads'' \<noteq> ''__proto__''" by simp
  have k1: "''CAC'' \<in> set (Object_keys case3_key)" by code_simp
  have k2: "''LTV'' \<in> set (Object_keys case3_key)" by code_simp
  have k3: "''ROI'' \<in> set (Object_keys case3_key)" by code_simp
  have k4: "''ROAS'' \<in> set (Object_keys case3_key)" by code_simp
  note p1 = perfect_answer [OF h1]
  have a: "score (evaluateAllocation case_key case_key) = Fin 100"
    by (rule p1 [THEN conjunct1])
  have f: "channelFeedback (evaluateAllocation case_key case_key) ''LinkedIn Ads''
              = Some ''Perfect allocation!''"
    by (rule p1 [THEN conjunct2, THEN conjunct1, THEN bspec, OF c, THEN mp, OF cn])
  from perfect_answer [OF h3] obtain fb
    where fb: "evaluateAnswers case3_key (Some \<lparr>answers = case3_key\<rparr>) = Some fb"
      and s: "score fb = Fin 100"
      and r: "\<forall>k \<in> set (Object_keys case3_key).
                \<exists>r. get_result (results fb) k = Some r \<and> isCorrect r \<and> deviation r = Fin 0"
    by blast
  from r k1 have r1: "\<exists>r. get_result (results fb) ''CAC'' = Some r \<and> isCorrect r \<and> deviation r = Fin 0" ..
  from r k2 have r2: "\<exists>r. get_result (results fb) ''LTV'' = Some r \<and> isCorrect r \<and> deviation r = Fin 0" ..
  from r k3 have r3: "\<exists>r. get_result (results fb) ''ROI'' = Some r \<and> isCorrect r \<and> deviation r = Fin 0" ..
  from r k4 have r4: "\<exists>r. get_result (results fb) ''ROAS'' = Some r \<and> isCorrect r \<and> deviation r = Fin 0" ..
  from fb s r1 r2 r3 r4
  have "\<exists>fb. evaluateAnswers case3_key (Some \<lparr>answers = case3_key\<rparr>) = Some fb
         \<and> score fb = Fin 100
         \<and> (\<exists>r. get_result (results fb) ''CAC'' = Some r \<and> isCorrect r \<and> deviation r = Fin 0)
         \<and> (\<exists>r. get_result (results fb) ''LTV'' = Some r \<and> isCorrect r \<and> deviation r = Fin 0)
         \<and> (\<exists>r. get_result (results fb) ''ROI'' = Some r \<and> isCorrect r \<and> deviation r = Fin 0)
         \<and> (\<exists>r. get_result (results fb) ''ROAS'' = Some r \<and> isCorrect r \<and> deviation r = Fin 0)"
    by (intro exI [of _ fb] conjI)
  with h1 h3 a m f show ?thesis by (intro conjI)
qed

theorem perfect_answer_counterexample:
  "valid_answer_key proto_key \<and> ''__proto__'' \<in> set (Object_keys proto_key)
   \<and> channelFeedback (evaluateAllocation proto_key proto_key) ''__proto__''
       \<noteq> Some ''Perfect allocation!''"
  by code_simp

text \<open>
  C8. With the answer key fixed and the user's values of all other channels (metrics)
  unchanged, a larger deviation of one channel (one metric) never gives a larger
  score, in the allocation evaluator and in the projection evaluator. In the
  allocation evaluator the new score is at most the old one when no channel's
  deviation is NaN, as it is when the key's values are finite and no channel is read
  from \<open>Object.prototype\<close>; otherwise both scores are NaN, which is no increase.
\<close>

theorem score_monotone:
  "(ch \<in> set (Object_keys answerKey)
      \<and> (\<forall>k. k \<noteq> ch \<longrightarrow> map_of ua k = map_of ua' k)
      \<and> js_le (alloc_deviation ua answerKey ch) (alloc_deviation ua' answerKey ch)
    \<longrightarrow> \<not> js_gt (score (evaluateAllocation ua' answerKey))
             (score (evaluateAllocation ua answerKey))
        \<and> ((\<forall>k \<in> set (Object_keys answerKey). alloc_deviation ua answerKey k \<noteq> NaN)
           \<longrightarrow> js_le (score (evaluateAllocation ua' answerKey))
                 (score (evaluateAllocation ua answerKey)))
        \<and> ((\<exists>k \<in> set (Object_keys answerKey). alloc_deviation ua answerKey k = NaN)
           \<longrightarrow> score (evaluateAllocation ua answerKey) = NaN
               \<and> score (evaluateAllocation ua' answerKey) = NaN)
        \<and> (all_finite answerKey \<and> reads_no_inherited ua answerKey
           \<longrightarrow> js_le (score (evaluateAllocation ua' answerKey))
                 (score (evaluateAllocation ua answerKey))))
   \<and> (m \<in> set (Object_keys (answers scenario))
      \<and> (\<forall>k. k \<noteq> m \<longrightarrow> map_of pa k = map_of pa' k)
      \<and> (\<forall>c. (m, c) \<in> set (answers scenario) \<longrightarrow>
             js_le (calculateDeviation (proj_userValue pa m) c)
                   (calculateDeviation (proj_userValue pa' m) c))
    \<longrightarrow> (\<exists>fb fb'. evaluateAnswers pa (Some scenario) = Some fb
            \<and> evaluateAnswers pa' (Some scenario) = Some fb'
            \<and> js_le (score fb') (score fb)))"
proof (intro conjI impI)
  assume a: "ch \<in> set (Object_keys answerKey)
      \<and> (\<forall>k. k \<noteq> ch \<longrightarrow> map_of ua k = map_of ua' k)
      \<and> js_le (alloc_deviation ua answerKey ch) (alloc_deviation ua' answerKey ch)"
  show "\<not> js_gt (score (evaluateAllocation ua' answerKey)) (score (evaluateAllocation ua answerKey))"
  proof (cases "\<forall>k \<in> set (Object_keys answerKey). alloc_deviation ua answerKey k \<noteq> NaN")
    case True
    have "js_le (score (evaluateAllocation ua' answerKey)) (score (evaluateAllocation ua answerKey))"
      by (rule allocation_monotone [OF a [THEN conjunct1] a [THEN conjunct2, THEN conjunct1]
            a [THEN conjunct2, THEN conjunct2] True])
    then show ?thesis by (rule js_le_not_js_gt)
  next
    case False
    then have bad: "\<exists>k \<in> set (Object_keys answerKey). alloc_deviation ua answerKey k = NaN"
      by blast
    note both = allocation_both_NaN [OF a [THEN conjunct2, THEN conjunct1]
        a [THEN conjunct2, THEN conjunct2] bad]
    show ?thesis
      by (simp only: both [THEN conjunct1] both [THEN conjunct2]) (simp add: js_gt_def)
  qed
next
  assume a: "ch \<in> set (Object_keys answerKey)
      \<and> (\<forall>k. k \<noteq> ch \<longrightarrow> map_of ua k = map_of ua' k)
      \<and> js_le (alloc_deviation ua answerKey ch) (alloc_deviation ua' answerKey ch)"
  assume ok: "\<forall>k \<in> set (Object_keys answerKey). alloc_deviation ua answerKey k \<noteq> NaN"
  show "js_le (score (evaluateAllocation ua' answerKey)) (score (evaluateAllocation ua answerKey))"
    by (rule allocation_monotone [OF a [THEN conjunct1] a [THEN conjunct2, THEN conjunct1]
          a [THEN conjunct2, THEN conjunct2] ok])
next
  assume a: "ch \<in> set (Object_keys answerKey)
      \<and> (\<forall>k. k \<noteq> ch \<longrightarrow> map_of ua k = map_of ua' k)
      \<and> js_le (alloc_deviation ua answerKey ch) (alloc_deviation ua' answerKey ch)"
  assume bad: "\<exists>k \<in> set (Object_keys answerKey). alloc_deviation ua answerKey k = NaN"
  note both = allocation_both_NaN [OF a [THEN conjunct2, THEN conjunct1]
      a [THEN conjunct2, THEN conjunct2] bad]
  show "score (evaluateAllocation ua answerKey) = NaN" by (rule both [THEN conjunct1])
  show "score (evaluateAllocation ua' answerKey) = NaN" by (rule both [THEN conjunct2])
next
  assume a: "ch \<in> set (Object_keys answerKey)
      \<and> (\<forall>k. k \<noteq> ch \<longrightarrow> map_of ua k = map_of ua' k)
      \<and> js_le (alloc_deviation ua answerKey ch) (alloc_deviation ua' answerKey ch)"
  assume f: "all_finite answerKey \<and> reads_no_inherited ua answerKey"
  have ok: "\<forall>k \<in> set (Object_keys answerKey). alloc_deviation ua answerKey k \<noteq> NaN"
  proof
    fix k assume k: "k \<in> set (Object_keys answerKey)"
    with f have "get_property ua k \<noteq> Inherited"
      by (simp add: reads_no_inherited_def list_all_iff)
    with f k show "alloc_deviation ua answerKey k \<noteq> NaN"
      by (intro alloc_deviation_not_NaN) simp_all
  qed
  show "js_le (score (evaluateAllocation ua' answerKey)) (score (evaluateAllocation ua answerKey))"
    by (rule allocation_monotone [OF a [THEN conjunct1] a [THEN conjunct2, THEN conjunct1]
          a [THEN conjunct2, THEN conjunct2] ok])
next
  assume p: "m \<in> set (Object_keys (answers scenario))
      \<and> (\<forall>k. k \<noteq> m \<longrightarrow> map_of pa k = map_of pa' k)
      \<and> (\<forall>c. (m, c) \<in> set (answers scenario) \<longrightarrow>
             js_le (calculateDeviation (proj_userValue pa m) c)
                   (calculateDeviation (proj_userValue pa' m) c))"
  show "\<exists>fb fb'. evaluateAnswers pa (Some scenario) = Some fb
            \<and> evaluateAnswers pa' (Some scenario) = Some fb'
            \<and> js_le (score fb') (score fb)"
    by (rule projection_monotone)
      (rule p [THEN conjunct1] p [THEN conjunct2, THEN conjunct1]
         p [THEN conjunct2, THEN conjunct2])+
qed

theorem score_monotone_witness:
  "all_finite mono_key \<and> reads_no_inherited mono_near mono_key
   \<and> ''Search'' \<in> set (Object_keys mono_key)
   \<and> map_of mono_near ''Social'' = map_of mono_far ''Social''
   \<and> js_le (alloc_deviation mono_near mono_key ''Search'') (alloc_deviation mono_far mono_key ''Search'')
   \<and> js_le (score (evaluateAllocation mono_far mono_key)) (score (evaluateAllocation mono_near mono_key))
   \<and> score (evaluateAllocation mono_near mono_key) = Fin 90
   \<and> score (evaluateAllocation mono_far mono_key) = Fin 65
   \<and> alloc_deviation inherited_user_near inherited_key ''constructor'' = NaN
   \<and> js_le (alloc_deviation inherited_user_near inherited_key ''Email'')
            (alloc_deviation inherited_user inherited_key ''Email'')
   \<and> score (evaluateAllocation inherited_user_near inherited_key) = NaN
   \<and> score (evaluateAllocation inherited_user inherited_key) = NaN
   \<and> js_le (calculateDeviation (proj_userValue mono_near ''Search'') (Fin 60))
            (calculateDeviation (proj_userValue mono_far ''Search'') (Fin 60))
   \<and> (\<exists>fb fb'. evaluateAnswers mono_near (Some \<lparr>answers = mono_key\<rparr>) = Some fb
          \<and> evaluateAnswers mono_far (Some \<lparr>answers = mono_key\<rparr>) = Some fb'
          \<and> js_le (score fb') (score fb))"
proof -
  have h1: "all_finite mono_key" by code_simp
  have h1': "reads_no_inherited mono_near mono_key" by code_simp
  have h2: "''Search'' \<in> set (Object_keys mono_key)" by code_simp
  have h2': "''Search'' \<in> set (Object_keys (answers \<lparr>answers = mono_key\<rparr>))" by code_simp
  have h3: "\<forall>k. k \<noteq> ''Search'' \<longrightarrow> map_of mono_near k = map_of mono_far k"
    by (simp add: mono_near_def mono_far_def)
  have s: "map_of mono_near ''Social'' = map_of mono_far ''Social''"
    by (simp add: mono_near_def mono_far_def)
  have h4: "js_le (alloc_deviation mono_near mono_key ''Search'')
              (alloc_deviation mono_far mono_key ''Search'')" by code_simp
  have v1: "score (evaluateAllocation mono_near mono_key) = Fin 90" by code_simp
  have v2: "score (evaluateAllocation mono_far mono_key) = Fin 65" by code_simp
  have d: "js_le (calculateDeviation (proj_userValue mono_near ''Search'') (Fin 60))
                (calculateDeviation (proj_userValue mono_far ''Search'') (Fin 60))" by code_simp
  have h5: "\<forall>c. (''Search'', c) \<in> set (answers \<lparr>answers = mono_key\<rparr>) \<longrightarrow>
          js_le (calculateDeviation (proj_userValue mono_near ''Search'') c)
                (calculateDeviation (proj_userValue mono_far ''Search'') c)"
    using d by (simp add: mono_key_def)
  note sm = score_monotone [of "''Search''" mono_key mono_near mono_far "''Search''"
      "\<lparr>answers = mono_key\<rparr>" mono_near mono_far]
  have a: "js_le (score (evaluateAllocation mono_far mono_key))
             (score (evaluateAllocation mono_near mono_key))"
    by (rule mp [OF conjunct2 [OF conjunct2 [OF conjunct2 [OF mp [OF conjunct1 [OF sm]]]]]])
      (intro conjI h1 h1' h2 h3 h4)+
  have b: "\<exists>fb fb'. evaluateAnswers mono_near (Some \<lparr>answers = mono_key\<rparr>) = Some fb
          \<and> evaluateAnswers mono_far (Some \<lparr>answers = mono_key\<rparr>) = Some fb'
          \<and> js_le (score fb') (score fb)"
    by (rule mp [OF conjunct2 [OF sm]]) (intro conjI h2' h3 h5)
  have g1: "''Email'' \<in> set (Object_keys inherited_key)" by code_simp
  have g2: "\<forall>k. k \<noteq> ''Email'' \<longrightarrow> map_of inherited_user_near k = map_of inherited_user k"
    by (simp add: inherited_user_near_def inherited_user_def)
  have g3: "js_le (alloc_deviation inherited_user_near inherited_key ''Email'')
              (alloc_deviation inherited_user inherited_key ''Email'')" by code_simp
  have g4: "alloc_deviation inherited_user_near inherited_key ''constructor'' = NaN" by code_simp
  have g5: "''constructor'' \<in> set (Object_keys inherited_key)" by code_simp
  from g4 g5
  have g6: "\<exists>k \<in> set (Object_keys inherited_key).
              alloc_deviation inherited_user_near inherited_key k = NaN" by blast
  note sn = score_monotone [of "''Email''" inherited_key inherited_user_near inherited_user
      "''Search''" "\<lparr>answers = mono_key\<rparr>" mono_near mono_far]
  have n: "score (evaluateAllocation inherited_user_near inherited_key) = NaN
           \<and> score (evaluateAllocation inherited_user inherited_key) = NaN"
    by (rule mp [OF conjunct1 [OF conjunct2 [OF conjunct2 [OF mp [OF conjunct1 [OF sn]]]]]])
      (intro conjI g1 g2 g3 g6)+
  show ?thesis
    by (intro conjI h1 h1' h2 s h4 a v1 v2 g4 g3 n [THEN conjunct1] n [THEN conjunct2] d b)
qed




text \<open>
  C10. With an empty answer key both evaluators divide the total \<open>0\<close> by the key
  count \<open>0\<close>, and the returned score is NaN, not a number between 0 and 100; so a
  score between 0 and 100 implies that the answer key is not empty.
\<close>

theorem empty_key_score_NaN:
  "score (evaluateAllocation userAnswer []) = NaN
   \<and> map_option score (evaluateAnswers userAnswers (Some \<lparr>answers = []\<rparr>)) = Some NaN
   \<and> js_div (Fin 0) (Fin (of_nat (length (Object_keys [])))) = NaN
   \<and> \<not> is_score_0_100 NaN
   \<and> (is_score_0_100 (score (evaluateAllocation userAnswer answerKey)) \<longrightarrow> answerKey \<noteq> [])
   \<and> (\<forall>fb. evaluateAnswers userAnswers (Some scenario) = Some fb \<and> is_score_0_100 (score fb)
         \<longrightarrow> answers scenario \<noteq> [])"
proof -
  have a: "score (evaluateAllocation ua []) = NaN" for ua
    by (simp add: evaluateAllocation_def Let_def Object_keys_def signed_inf_def js_sub_def)
  have p: "evaluateAnswers pa (Some sc) = Some fb \<Longrightarrow> answers sc = [] \<Longrightarrow> score fb = NaN" for pa sc fb
    by (auto simp: evaluateAnswers_def Let_def Object_keys_def Object_entries_def signed_inf_def)
  have n: "\<not> is_score_0_100 NaN" by (simp add: is_score_0_100_def)
  have "map_option score (evaluateAnswers userAnswers (Some \<lparr>answers = []\<rparr>)) = Some NaN"
    by (simp add: evaluateAnswers_def Let_def Object_keys_def Object_entries_def signed_inf_def)
  moreover have "js_div (Fin 0) (Fin (of_nat (length (Object_keys [])))) = NaN"
    by (simp add: Object_keys_def signed_inf_def)
  moreover have "is_score_0_100 (score (evaluateAllocation userAnswer answerKey)) \<longrightarrow> answerKey \<noteq> []"
    using a n by auto
  moreover have "\<forall>fb. evaluateAnswers userAnswers (Some scenario) = Some fb \<and> is_score_0_100 (score fb)
         \<longrightarrow> answers scenario \<noteq> []"
    using p n by metis
  ultimately show ?thesis using a n by blast
qed

theorem empty_key_score_NaN_witness:
  "is_score_0_100 (score (evaluateAllocation case2_user case_key)) \<and> case_key \<noteq> []
   \<and> (\<exists>fb. evaluateAnswers case4_user (Some case4_scenario) = Some fb \<and> is_score_0_100 (score fb))
   \<and> answers case4_scenario \<noteq> []"
proof -
  have h1: "is_score_0_100 (score (evaluateAllocation case2_user case_key))" by code_simp
  obtain fb where fb: "evaluateAnswers case4_user (Some case4_scenario) = Some fb"
    by (simp add: evaluateAnswers_def Let_def)
  have "map_option (\<lambda>fb. is_score_0_100 (score fb)) (evaluateAnswers case4_user (Some case4_scenario))
          = Some True"
    by code_simp
  with fb have h2: "is_score_0_100 (score fb)" by simp
  from empty_key_score_NaN [of case2_user case4_user case_key case4_scenario] h1 h2 fb
  show ?thesis by blast
qed

end
